theory Spec2Isabelle
  imports Complex_Main "HOL-Library.AList" "HOL-Library.Multiset" "HOL-Library.Sublist"
begin

section \<open>JavaScript values\<close>

text \<open>
  The values the client handles are JSON data received from the backend, together with
  \<open>undefined\<close>. A number is kept in one of three forms: \<open>JNum n\<close> is the
  double nearest to the integer \<open>n\<close> (the integer itself when its magnitude is
  below \<open>2^53\<close>), \<open>JNaN\<close> is \<open>NaN\<close>, and \<open>JReal t\<close> is any other number (one
  that is not an integer, or an infinity), kept as the text JavaScript prints for it. An
  object is the list of its own properties, each key once. A \<open>char\<close> stands for a
  code unit below 256.
\<close>

datatype jsval =
    JUndefined
  | JNull
  | JBool bool
  | JNum int
  | JNaN
  | JReal string
  | JStr string
  | JArr "jsval list"
  | JObj "(string \<times> jsval) list"

datatype js_error = Error string | TypeError string | SyntaxError string | RangeError string

text \<open>\<open>if (v)\<close>, \<open>!v\<close>, \<open>v || w\<close>: the values that count as true.\<close>

fun truthy :: "jsval \<Rightarrow> bool" where
  "truthy JUndefined = False"
| "truthy JNull = False"
| "truthy (JBool b) = b"
| "truthy (JNum n) = (n \<noteq> 0)"
| "truthy JNaN = False"
| "truthy (JReal t) = True"
| "truthy (JStr s) = (s \<noteq> [])"
| "truthy (JArr xs) = True"
| "truthy (JObj kvs) = True"

text \<open>
  \<open>v.k\<close> and \<open>v[k]\<close> for the keys this client reads (none of them is a property
  of a prototype): the own property of an object, \<open>undefined\<close> on every other value.
  Reading a property of \<open>null\<close> or \<open>undefined\<close> throws; the callers test for that
  before they call \<open>get_prop\<close>.
\<close>

fun get_prop :: "jsval \<Rightarrow> string \<Rightarrow> jsval" where
  "get_prop (JObj kvs) k = (case map_of kvs k of Some v \<Rightarrow> v | None \<Rightarrow> JUndefined)"
| "get_prop v k = JUndefined"

definition digit_char :: "nat \<Rightarrow> char" where
  "digit_char d = ''0123456789'' ! d"

fun show_nat :: "nat \<Rightarrow> string" where
  "show_nat n = (if n < 10 then [digit_char n] else show_nat (n div 10) @ [digit_char (n mod 10)])"

declare show_nat.simps [simp del]

text \<open>
  The double nearest to a natural number, ties to the even significand; \<open>None\<close> when
  it is an infinity.
\<close>

fun bit_count :: "nat \<Rightarrow> nat" where
  "bit_count n = (if n = 0 then 0 else Suc (bit_count (n div 2)))"

declare bit_count.simps [simp del]

definition round_double :: "nat \<Rightarrow> nat option" where
  "round_double n =
     (if n < 9007199254740992 then Some n
      else
        let e = bit_count n - 53;
            q = n div 2 ^ e;
            r = n mod 2 ^ e;
            h = 2 ^ (e - 1);
            q' = (if h < r \<or> (r = h \<and> odd q) then q + 1 else q)
        in if 2 ^ 1024 \<le> q' * 2 ^ e then None else Some (q' * 2 ^ e))"

text \<open>
  Number::toString picks the fewest digits that still read back as the same double.
  \<open>shortest x j\<close> looks for such a decimal with at least \<open>j\<close> trailing zeros, then
  \<open>j - 1\<close>, and so on; of two candidates the one nearer to \<open>x\<close> wins, and on a tie
  the one with the even last digit.
\<close>

fun shortest :: "nat \<Rightarrow> nat \<Rightarrow> nat" where
  "shortest x 0 = x"
| "shortest x (Suc j) =
     (let p = 10 ^ Suc j;
          lo = (x div p) * p;
          hi = lo + p;
          lo_ok = (x div p \<noteq> 0 \<and> round_double lo = Some x);
          hi_ok = (round_double hi = Some x)
      in if lo_ok \<and> hi_ok then
           (if x - lo < hi - x then lo
            else if hi - x < x - lo then hi
            else if even (x div p) then lo else hi)
         else if lo_ok then lo
         else if hi_ok then hi
         else shortest x j)"

definition strip_zeros :: "string \<Rightarrow> string" where
  "strip_zeros ds = rev (dropWhile (\<lambda>c. c = CHR ''0'') (rev ds))"

text \<open>
  \<open>String(x)\<close> for the number nearest to a natural number: all digits up to 21 of
  them, the exponent form beyond.
\<close>

definition nat_text :: "nat \<Rightarrow> string" where
  "nat_text m =
     (if m < 9007199254740992 then show_nat m
      else case round_double m of
             None \<Rightarrow> ''Infinity''
           | Some x \<Rightarrow>
               let ds = show_nat (shortest x (length (show_nat x) - 1));
                   s = strip_zeros ds
               in if length ds \<le> 21 then ds
                  else [hd s] @ (if 1 < length s then CHR ''.'' # tl s else [])
                       @ ''e+'' @ show_nat (length ds - 1))"

definition number_text :: "int \<Rightarrow> string" where
  "number_text i = (if i < 0 then CHR ''-'' # nat_text (nat (- i)) else nat_text (nat i))"

text \<open>The number that an integer computed by the program becomes.\<close>

definition number :: "int \<Rightarrow> jsval" where
  "number i =
     (case round_double (nat \<bar>i\<bar>) of
        Some x \<Rightarrow> JNum (if i < 0 then - int x else int x)
      | None \<Rightarrow> JReal (if i < 0 then ''-Infinity'' else ''Infinity''))"

fun join_with :: "string \<Rightarrow> string list \<Rightarrow> string" where
  "join_with sep [] = []"
| "join_with sep [x] = x"
| "join_with sep (x # y # ys) = x @ sep @ join_with sep (y # ys)"

text \<open>
  The conversion to a string that \<open>String(v)\<close> and \<open>`${v}`\<close> perform, on a stack
  without bound. \<open>None\<close> is the TypeError of an object that has a property
  \<open>toString\<close> of its own (JSON data is never callable, so the conversion finds no
  method that returns a primitive). An array joins its elements with commas, \<open>null\<close>
  and \<open>undefined\<close> elements as the empty string.
\<close>

fun to_string :: "jsval \<Rightarrow> string option" where
  "to_string JUndefined = Some ''undefined''"
| "to_string JNull = Some ''null''"
| "to_string (JBool b) = Some (if b then ''true'' else ''false'')"
| "to_string (JNum n) = Some (number_text n)"
| "to_string JNaN = Some ''NaN''"
| "to_string (JReal t) = Some t"
| "to_string (JStr s) = Some s"
| "to_string (JArr xs) =
     map_option (join_with '','')
       (those (map (\<lambda>x. if x = JNull \<or> x = JUndefined then Some [] else to_string x) xs))"
| "to_string (JObj kvs) =
     (if map_of kvs ''toString'' \<noteq> None then None else Some ''[object Object]'')"

text \<open>
  The call stack is finite, and the builtins that recurse share it with the functions of
  the program. What it admits depends on the engine, so the limits are parameters. Room
  is counted in activations of a function of the program (each leaving room for its calls
  of builtins that do not recurse): \<open>frames\<close> is the room where the code under study
  is entered, \<open>join_depth eng r\<close> the nesting of arrays that the join of an array can
  descend while room for \<open>r\<close> activations is left, and \<open>stringify_depth eng r\<close> the
  nesting of arrays and objects that JSON.stringify can descend then. Beyond its limit a
  builtin throws a RangeError.
\<close>

record engine =
  frames :: nat
  join_depth :: "nat \<Rightarrow> nat"
  stringify_depth :: "nat \<Rightarrow> nat"

primrec max_list :: "nat list \<Rightarrow> nat" where
  "max_list [] = 0"
| "max_list (x # xs) = max x (max_list xs)"

fun array_nesting :: "jsval \<Rightarrow> nat" where
  "array_nesting (JArr xs) = Suc (max_list (map array_nesting xs))"
| "array_nesting v = 0"


definition stack_error :: js_error where
  "stack_error = RangeError ''Maximum call stack size exceeded''"

text \<open>
  \<open>String(v)\<close> and \<open>`${v}`\<close> on the engine, with room for \<open>room\<close> activations
  left: \<open>Inl\<close> is the error thrown.
\<close>

definition js_String :: "engine \<Rightarrow> nat \<Rightarrow> jsval \<Rightarrow> js_error + string" where
  "js_String eng room v =
     (if join_depth eng room < array_nesting v then Inl stack_error
      else case to_string v of
             None \<Rightarrow> Inl (TypeError ''Cannot convert object to primitive value'')
           | Some t \<Rightarrow> Inr t)"

text \<open>White space as \<open>trim\<close> and the regular expression class \<open>\s\<close> know it.\<close>

definition is_space :: "char \<Rightarrow> bool" where
  "is_space c = (c \<in> set [CHR 0x09, CHR 0x0A, CHR 0x0B, CHR 0x0C, CHR 0x0D, CHR 0x20, CHR 0xA0])"

definition trim :: "string \<Rightarrow> string" where
  "trim s = rev (dropWhile is_space (rev (dropWhile is_space s)))"

section \<open>services/api.ts: the request helper\<close>

record req_init =
  http_method :: "string option"
  headers :: "(string \<times> string) list"
  req_body :: "string option"

text \<open>
  A response as \<open>request\<close> reads it. \<open>json\<close> is what \<open>res.json()\<close> settles to:
  \<open>Inl\<close> the rejection when the body is not JSON, \<open>Inr\<close> the parsed body.
\<close>

record response =
  status :: nat
  statusText :: string
  json :: "js_error + jsval"

definition ok :: "response \<Rightarrow> bool" where
  "ok res = (200 \<le> status res \<and> status res \<le> 299)"

datatype io_event =
    ConsoleLog string
  | ConsoleErrorBody jsval
  | ConsoleErrorThrown js_error
  | Fetch string req_init

text \<open>
  The inner \<open>try\<close> of the error branch, after \<open>res.json()\<close> gave \<open>errorBody\<close>:
  each step that throws (a property of \<open>null\<close>, a conversion to string) leaves
  \<open>errorMessage\<close> as it was at that point and ends the block.
\<close>

definition append_detail :: "engine \<Rightarrow> jsval \<Rightarrow> string \<Rightarrow> string" where
  "append_detail eng errorBody errorMessage =
     (if errorBody = JNull \<or> errorBody = JUndefined then errorMessage
      else
        (let detail = get_prop errorBody ''detail'';
             with_detail =
               (if truthy detail
                then (case js_String eng (frames eng) detail of
                        Inl e \<Rightarrow> None
                      | Inr t \<Rightarrow> Some (errorMessage @ '' - '' @ t))
                else Some errorMessage)
         in (case with_detail of
               None \<Rightarrow> errorMessage
             | Some m1 \<Rightarrow>
                 (let message = get_prop errorBody ''message''
                  in (if truthy message
                      then (case js_String eng (frames eng) message of
                              Inl e \<Rightarrow> m1
                            | Inr t \<Rightarrow> m1 @ '' - '' @ t)
                      else m1)))))"

text \<open>
  The second argument of \<open>fetch\<close>: \<open>{ ...options, headers }\<close>, where \<open>headers\<close>
  are those of the caller with the two tunnel headers set.
\<close>

definition fetch_init :: "req_init option \<Rightarrow> req_init" where
  "fetch_init options =
     (let hdrs = AList.update ''ngrok-skip-browser-warning'' ''true''
                   (AList.update ''Bypass-Tunnel-Reminder'' ''true''
                      (case options of None \<Rightarrow> [] | Some opt \<Rightarrow> headers opt))
      in case options of
           None \<Rightarrow> \<lparr>http_method = None, headers = hdrs, req_body = None\<rparr>
         | Some opt \<Rightarrow> opt\<lparr>headers := hdrs\<rparr>)"

definition status_line :: "response \<Rightarrow> string" where
  "status_line res = ''API Error: '' @ nat_text (status res) @ '' '' @ statusText res"

text \<open>
  \<open>request\<close>, with the engine, the base URL and \<open>fetch\<close> as parameters
  (\<open>fetch\<close> answers \<open>Inl\<close> when the promise rejects). It returns what it wrote to
  the console and asked of the network, in order, and how its promise settles: \<open>Inl\<close>
  rejected, \<open>Inr\<close> resolved. The last \<open>return res.json()\<close> hands the promise over
  without awaiting it, so its rejection passes to the caller outside the \<open>try\<close>.
\<close>

definition request ::
  "engine \<Rightarrow> string \<Rightarrow> (string \<Rightarrow> req_init \<Rightarrow> js_error + response) \<Rightarrow> string
   \<Rightarrow> req_init option \<Rightarrow> io_event list \<times> (js_error + jsval)" where
  "request eng API_BASE fetch endpoint options =
     (let url = API_BASE @ endpoint;
          meth = (case options of
                    None \<Rightarrow> ''GET''
                  | Some opt \<Rightarrow> (case http_method opt of
                                  None \<Rightarrow> ''GET''
                                | Some m \<Rightarrow> if m = [] then ''GET'' else m));
          pre = [ConsoleLog (''[API] Request: '' @ meth @ '' '' @ url),
                 Fetch url (fetch_init options)]
      in case fetch url (fetch_init options) of
           Inl error \<Rightarrow> (pre @ [ConsoleErrorThrown error], Inl error)
         | Inr res \<Rightarrow>
             if \<not> ok res then
               (let errorMessage = status_line res;
                    logged = (case json res of
                                Inl e \<Rightarrow> []
                              | Inr errorBody \<Rightarrow> [ConsoleErrorBody errorBody]);
                    errorMessage' = (case json res of
                                       Inl e \<Rightarrow> errorMessage
                                     | Inr errorBody \<Rightarrow> append_detail eng errorBody errorMessage);
                    error = Error errorMessage'
                in (pre @ logged @ [ConsoleErrorThrown error], Inl error))
             else if status res = 204 then (pre, Inr (JObj []))
             else (pre, json res))"

text \<open>
  An engine to run the definitions on: it has room for ten thousand activations, and one
  level of a join or of JSON.stringify takes the room of one activation.
\<close>

definition sample_engine :: engine where
  "sample_engine = \<lparr>frames = 10000, join_depth = (\<lambda>r. r), stringify_depth = (\<lambda>r. r)\<rparr>"

fun is_fetch :: "io_event \<Rightarrow> bool" where
  "is_fetch (Fetch url init) = True"
| "is_fetch e = False"

section \<open>Effects of a screen\<close>

text \<open>
  What a handler does to the world outside its component state, in order: a native alert
  (title, message) and a call of a function of \<open>services/api.ts\<close> or of the screen
  (its name and its arguments).
\<close>

datatype ui_effect =
    Alert string string
  | Call string "jsval list"

section \<open>app/(tabs)/generate.tsx\<close>

text \<open>
  \<open>parseInt(s)\<close> without a radix: leading white space, a sign, \<open>0x\<close> for radix 16,
  then the longest run of digits; \<open>NaN\<close> when the run is empty. The value of the
  digits becomes the nearest double.
\<close>

definition digit_of :: "char \<Rightarrow> nat" where
  "digit_of c =
     (let n = of_char c in
      if 48 \<le> n \<and> n \<le> 57 then n - 48
      else if 97 \<le> n \<and> n \<le> 122 then n - 87
      else if 65 \<le> n \<and> n \<le> 90 then n - 55
      else 36)"

definition parseInt :: "string \<Rightarrow> jsval" where
  "parseInt s =
     (let S = dropWhile is_space s;
          neg = (case S of c # r \<Rightarrow> c = CHR ''-'' | [] \<Rightarrow> False);
          S1 = (case S of c # r \<Rightarrow> if c = CHR ''-'' \<or> c = CHR ''+'' then r else S | [] \<Rightarrow> S);
          hex = (case S1 of a # b # r \<Rightarrow> a = CHR ''0'' \<and> (b = CHR ''x'' \<or> b = CHR ''X'')
                 | _ \<Rightarrow> False);
          R = (if hex then 16 else 10);
          S2 = (if hex then drop 2 S1 else S1);
          Z = takeWhile (\<lambda>c. digit_of c < R) S2
      in if Z = [] then JNaN
         else number ((if neg then - 1 else 1) * int (foldl (\<lambda>acc c. acc * R + digit_of c) 0 Z)))"

text \<open>\<open>s || d\<close> on strings: the empty string is false.\<close>

definition or_default :: "string \<Rightarrow> string \<Rightarrow> string" where
  "or_default s d = (if s = [] then d else s)"

datatype view_mode = Select | Create | Generating | Complete

text \<open>An interval of \<open>setInterval\<close> runs one of the two callbacks of \<open>handleGenerate\<close>:
  the poll of a job (the closure holds \<open>result.job_id\<close>) or the tick of the elapsed-time
  counter.\<close>

datatype callback = PollTick int | ElapsedTick

text \<open>
  The state of \<open>GenerateScreen\<close> (its \<open>useState\<close> and \<open>useRef\<close> cells that the
  handlers below read or write; a selected rubric or subject is kept as its id), followed
  by the part of the JavaScript runtime the screen acts on: the intervals that are active
  (id, callback, period in ms), the next interval id, the calls of \<open>startGeneration\<close>
  and of \<open>pollJob\<close> that have not settled yet, the number of calls of
  \<open>createRubric\<close> that have not settled yet, and everything the screen has asked for
  so far.
\<close>

record generate_screen =
  view :: view_mode
  selectedRubric :: "int option"
  selectedSubject :: "int option"
  ollamaAvailable :: bool
  difficulty :: string
  rubricName :: string
  examType :: string
  duration :: string
  mcqCount :: int
  mcqMarks :: string
  shortCount :: int
  shortMarks :: string
  essayCount :: int
  essayMarks :: string
  jobId :: "int option"
  jobData :: jsval
  elapsed :: nat
  pollRef :: "nat option"
  timerRef :: "nat option"
  mounted :: bool
  intervals :: "(nat \<times> callback \<times> nat) list"
  next_interval :: nat
  pending_starts :: nat
  pending_polls :: "int list"
  pending_creates :: nat
  effects :: "ui_effect list"

definition setInterval :: "callback \<Rightarrow> nat \<Rightarrow> generate_screen \<Rightarrow> nat \<times> generate_screen" where
  "setInterval f ms s =
     (next_interval s,
      s\<lparr>intervals := intervals s @ [(next_interval s, f, ms)],
        next_interval := Suc (next_interval s)\<rparr>)"

text \<open>\<open>clearInterval(ref.current)\<close>: nothing happens for \<open>null\<close> or for an id that is
  not active.\<close>

definition clearInterval :: "nat option \<Rightarrow> generate_screen \<Rightarrow> generate_screen" where
  "clearInterval r s =
     (case r of
        None \<Rightarrow> s
      | Some i \<Rightarrow> s\<lparr>intervals := filter (\<lambda>t. fst t \<noteq> i) (intervals s)\<rparr>)"

definition emit :: "ui_effect \<Rightarrow> generate_screen \<Rightarrow> generate_screen" where
  "emit e s = s\<lparr>effects := effects s @ [e]\<rparr>"

text \<open>The call of \<open>createRubric\<close> with the argument built from the form.\<close>

definition createRubric_call :: "generate_screen \<Rightarrow> ui_effect" where
  "createRubric_call s =
     Call ''createRubric''
       [JObj [(''name'', JStr (trim (rubricName s))),
              (''exam_type'', JStr (examType s)),
              (''duration'', parseInt (or_default (duration s) ''60'')),
              (''mcq_count'', JNum (mcqCount s)),
              (''mcq_marks_each'', parseInt (or_default (mcqMarks s) ''2'')),
              (''short_count'', JNum (shortCount s)),
              (''short_marks_each'', parseInt (or_default (shortMarks s) ''5'')),
              (''essay_count'', JNum (essayCount s)),
              (''essay_marks_each'', parseInt (or_default (essayMarks s) ''10''))]]"

text \<open>
  \<open>handleCreateRubric\<close>. \<open>resolved\<close> tells whether the promise of \<open>createRubric\<close>
  resolves; it is not looked at when the handler returns before the call.
\<close>

definition handleCreateRubric ::
  "bool \<Rightarrow> generate_screen \<Rightarrow> ui_effect list \<times> generate_screen" where
  "handleCreateRubric resolved s =
     (if trim (rubricName s) = [] then ([Alert ''Error'' ''Rubric name is required''], s)
      else if resolved then ([createRubric_call s, Call ''fetchData'' []], s\<lparr>view := Select\<rparr>)
      else ([createRubric_call s, Alert ''Error'' ''Failed to create rubric''], s))"

text \<open>
  \<open>handleGenerate\<close> up to its \<open>await\<close>: the two guards, then the call of
  \<open>startGeneration\<close>, which stays pending.
\<close>

definition handleGenerate :: "generate_screen \<Rightarrow> generate_screen" where
  "handleGenerate s =
     (case selectedRubric s of
        None \<Rightarrow> s
      | Some rubric \<Rightarrow>
          (case selectedSubject s of
             None \<Rightarrow> emit (Alert ''Error'' ''Please select a subject first'') s
           | Some subject \<Rightarrow>
               (emit (Call ''startGeneration'' [JNum rubric, JNum subject, JStr (difficulty s)]) s)
                 \<lparr>pending_starts := Suc (pending_starts s)\<rparr>))"

text \<open>
  \<open>handleGenerate\<close> after \<open>startGeneration\<close> resolved with \<open>result\<close>: the state
  updates, then the poll interval of 2000 ms into \<open>pollRef\<close> and the elapsed-time
  interval of 1000 ms into \<open>timerRef\<close>.
\<close>

definition handleGenerate_resolved :: "int \<Rightarrow> jsval \<Rightarrow> generate_screen \<Rightarrow> generate_screen" where
  "handleGenerate_resolved result_job_id total_questions_requested s =
     (let s1 = s\<lparr>jobId := Some result_job_id,
                  jobData := JObj [(''status'', JStr ''pending''), (''progress'', JNum 0),
                                   (''total_questions_requested'', total_questions_requested)],
                  elapsed := 0,
                  view := Generating\<rparr>;
          (p, s2) = setInterval (PollTick result_job_id) 2000 s1;
          s3 = s2\<lparr>pollRef := Some p\<rparr>;
          (t, s4) = setInterval ElapsedTick 1000 s3
      in s4\<lparr>timerRef := Some t\<rparr>)"

definition handleGenerate_rejected :: "generate_screen \<Rightarrow> generate_screen" where
  "handleGenerate_rejected s = emit (Alert ''Error'' ''Failed to start generation'') s"

text \<open>
  The poll callback after \<open>pollJob\<close> resolved with \<open>job\<close>. Reading \<open>job.status\<close>
  of \<open>null\<close> throws inside the callback's \<open>try\<close>, whose \<open>catch\<close> is empty.
\<close>

definition poll_resolved :: "jsval \<Rightarrow> generate_screen \<Rightarrow> generate_screen" where
  "poll_resolved job s =
     (let s1 = s\<lparr>jobData := job\<rparr> in
      if job = JNull \<or> job = JUndefined then s1
      else if get_prop job ''status'' = JStr ''completed'' then
        (clearInterval (timerRef s1) (clearInterval (pollRef s1) s1))\<lparr>view := Complete\<rparr>
      else if get_prop job ''status'' = JStr ''failed'' then
        clearInterval (timerRef s1) (clearInterval (pollRef s1) s1)
      else s1)"

text \<open>The button of the failed view: \<open>setView('select')\<close>, then both intervals cleared.\<close>

definition tryAgain :: "generate_screen \<Rightarrow> generate_screen" where
  "tryAgain s = clearInterval (timerRef s) (clearInterval (pollRef s) (s\<lparr>view := Select\<rparr>))"

text \<open>The cleanup of the effect with the empty dependency list, run when the screen
  unmounts.\<close>

definition unmount_cleanup :: "generate_screen \<Rightarrow> generate_screen" where
  "unmount_cleanup s =
     (let s1 = (if pollRef s \<noteq> None \<and> pollRef s \<noteq> Some 0 then clearInterval (pollRef s) s else s)
      in if timerRef s1 \<noteq> None \<and> timerRef s1 \<noteq> Some 0 then clearInterval (timerRef s1) s1 else s1)"

text \<open>
  What the runtime can deliver to the screen: a tap or an input on a control that the
  current view renders enabled, the settling of a pending promise, the firing of an
  active interval, the unmount. An event that is not enabled leaves the state as it is.
  \<open>handleCreateRubric\<close> appears in its two halves, before and after its \<open>await\<close>.
  \<open>FetchResolved\<close> is a \<open>fetchData\<close> that settles, with what the backend said
  about Ollama; of the lists it fetches the handlers read nothing.
\<close>

datatype gen_event =
    TapRubric int
  | TapSubject int
  | TapDifficulty string
  | TapDeleteRubric int
  | ConfirmDelete int
  | DeleteResolved
  | FetchResolved bool
  | TapCreateNew
  | TapBack
  | TypeRubricName string
  | TapExamType string
  | TypeDuration string
  | SlideMcqCount int
  | TypeMcqMarks string
  | SlideShortCount int
  | TypeShortMarks string
  | SlideEssayCount int
  | TypeEssayMarks string
  | TapSaveRubric
  | CreateResolved
  | CreateRejected
  | TapGenerate
  | StartResolved int jsval
  | StartRejected
  | IntervalFired nat
  | PollResolved int jsval
  | PollRejected int
  | TapTryAgain
  | TapReviewInVetting
  | TapViewBenchmarks
  | TapGenerateAnother
  | Unmount

fun gen_step :: "gen_event \<Rightarrow> generate_screen \<Rightarrow> generate_screen" where
  "gen_step (TapRubric r) s =
     (if mounted s \<and> view s = Select
      then s\<lparr>selectedRubric := (if selectedRubric s = Some r then None else Some r)\<rparr> else s)"
| "gen_step (TapSubject r) s =
     (if mounted s \<and> view s = Select
      then s\<lparr>selectedSubject := (if selectedSubject s = Some r then None else Some r)\<rparr> else s)"
| "gen_step (TapDifficulty level) s =
     (if mounted s \<and> view s = Select \<and> selectedRubric s \<noteq> None \<and> selectedSubject s \<noteq> None
         \<and> ollamaAvailable s \<and> level \<in> set [''Easy'', ''Medium'', ''Hard'']
      then s\<lparr>difficulty := level\<rparr> else s)"
| "gen_step (TapDeleteRubric r) s =
     (if mounted s \<and> view s = Select
      then emit (Alert ''Delete Rubric'' ''Remove this rubric?'') s else s)"
| "gen_step (ConfirmDelete r) s =
     (if mounted s then emit (Call ''deleteRubric'' [JNum r]) s else s)"
| "gen_step DeleteResolved s = emit (Call ''fetchData'' []) s"
| "gen_step (FetchResolved available) s = s\<lparr>ollamaAvailable := available\<rparr>"
| "gen_step TapCreateNew s = (if mounted s \<and> view s = Select then s\<lparr>view := Create\<rparr> else s)"
| "gen_step TapBack s = (if mounted s \<and> view s = Create then s\<lparr>view := Select\<rparr> else s)"
| "gen_step (TypeRubricName t) s =
     (if mounted s \<and> view s = Create then s\<lparr>rubricName := t\<rparr> else s)"
| "gen_step (TapExamType t) s =
     (if mounted s \<and> view s = Create \<and> t \<in> set [''final'', ''midterm'', ''quiz'']
      then s\<lparr>examType := t\<rparr> else s)"
| "gen_step (TypeDuration t) s =
     (if mounted s \<and> view s = Create then s\<lparr>duration := t\<rparr> else s)"
| "gen_step (SlideMcqCount n) s =
     (if mounted s \<and> view s = Create \<and> 0 \<le> n \<and> n \<le> 30 then s\<lparr>mcqCount := n\<rparr> else s)"
| "gen_step (TypeMcqMarks t) s =
     (if mounted s \<and> view s = Create then s\<lparr>mcqMarks := t\<rparr> else s)"
| "gen_step (SlideShortCount n) s =
     (if mounted s \<and> view s = Create \<and> 0 \<le> n \<and> n \<le> 15 then s\<lparr>shortCount := n\<rparr> else s)"
| "gen_step (TypeShortMarks t) s =
     (if mounted s \<and> view s = Create then s\<lparr>shortMarks := t\<rparr> else s)"
| "gen_step (SlideEssayCount n) s =
     (if mounted s \<and> view s = Create \<and> 0 \<le> n \<and> n \<le> 10 then s\<lparr>essayCount := n\<rparr> else s)"
| "gen_step (TypeEssayMarks t) s =
     (if mounted s \<and> view s = Create then s\<lparr>essayMarks := t\<rparr> else s)"
| "gen_step TapSaveRubric s =
     (if mounted s \<and> view s = Create then
        (if trim (rubricName s) = [] then emit (Alert ''Error'' ''Rubric name is required'') s
         else (emit (createRubric_call s) s)\<lparr>pending_creates := Suc (pending_creates s)\<rparr>)
      else s)"
| "gen_step CreateResolved s =
     (if 0 < pending_creates s
      then emit (Call ''fetchData'' [])
             (s\<lparr>pending_creates := pending_creates s - 1, view := Select\<rparr>)
      else s)"
| "gen_step CreateRejected s =
     (if 0 < pending_creates s
      then emit (Alert ''Error'' ''Failed to create rubric'')
             (s\<lparr>pending_creates := pending_creates s - 1\<rparr>)
      else s)"
| "gen_step TapGenerate s =
     (if mounted s \<and> view s = Select \<and> selectedRubric s \<noteq> None \<and> selectedSubject s \<noteq> None
         \<and> ollamaAvailable s
      then handleGenerate s else s)"
| "gen_step (StartResolved j requested) s =
     (if 0 < pending_starts s
      then handleGenerate_resolved j requested (s\<lparr>pending_starts := pending_starts s - 1\<rparr>) else s)"
| "gen_step StartRejected s =
     (if 0 < pending_starts s
      then handleGenerate_rejected (s\<lparr>pending_starts := pending_starts s - 1\<rparr>) else s)"
| "gen_step (IntervalFired i) s =
     (case map_of (intervals s) i of
        None \<Rightarrow> s
      | Some (PollTick j, ms) \<Rightarrow>
          (emit (Call ''pollJob'' [JNum j]) s)\<lparr>pending_polls := pending_polls s @ [j]\<rparr>
      | Some (ElapsedTick, ms) \<Rightarrow> s\<lparr>elapsed := elapsed s + 1\<rparr>)"
| "gen_step (PollResolved j job) s =
     (if j \<in> set (pending_polls s)
      then poll_resolved job (s\<lparr>pending_polls := remove1 j (pending_polls s)\<rparr>) else s)"
| "gen_step (PollRejected j) s =
     (if j \<in> set (pending_polls s) then s\<lparr>pending_polls := remove1 j (pending_polls s)\<rparr> else s)"
| "gen_step TapTryAgain s =
     (if mounted s \<and> view s = Generating \<and> get_prop (jobData s) ''status'' = JStr ''failed''
      then tryAgain s else s)"
| "gen_step TapReviewInVetting s =
     (if mounted s \<and> view s = Complete
      then emit (Call ''router.push'' [JStr ''/(tabs)/vetting'']) s else s)"
| "gen_step TapViewBenchmarks s =
     (if mounted s \<and> view s = Complete
      then emit (Call ''router.push'' [JStr ''/(tabs)/benchmarks'']) s else s)"
| "gen_step TapGenerateAnother s =
     (if mounted s \<and> view s = Complete
      then emit (Call ''fetchData'' []) (s\<lparr>view := Select, selectedRubric := None, selectedSubject := None\<rparr>)
      else s)"
| "gen_step Unmount s = (if mounted s then (unmount_cleanup s)\<lparr>mounted := False\<rparr> else s)"

fun gen_run :: "gen_event list \<Rightarrow> generate_screen \<Rightarrow> generate_screen" where
  "gen_run [] s = s"
| "gen_run (e # es) s = gen_run es (gen_step e s)"

text \<open>The screen as it mounts: the select view, nothing selected, no interval.\<close>

definition gen_init :: "bool \<Rightarrow> generate_screen" where
  "gen_init ollama =
     \<lparr>view = Select, selectedRubric = None, selectedSubject = None, ollamaAvailable = ollama,
      difficulty = ''Medium'', rubricName = [], examType = ''midterm'', duration = ''60'',
      mcqCount = 5, mcqMarks = ''2'', shortCount = 3, shortMarks = ''5'',
      essayCount = 2, essayMarks = ''10'', jobId = None, jobData = JNull, elapsed = 0,
      pollRef = None, timerRef = None, mounted = True, intervals = [], next_interval = 1,
      pending_starts = 0, pending_polls = [], pending_creates = 0, effects = []\<rparr>"

section \<open>Runs of the Generate screen\<close>

text \<open>
  Every active interval is held by \<open>pollRef\<close> or \<open>timerRef\<close> (and its id is not
  0, which the unmount cleanup would take for an empty ref).
\<close>

definition tracked :: "generate_screen \<Rightarrow> bool" where
  "tracked s =
     (\<forall>t \<in> set (intervals s).
        fst t \<noteq> 0 \<and> (pollRef s = Some (fst t) \<or> timerRef s = Some (fst t)))"

text \<open>
  The states in which the refs hold every active interval and a pending
  \<open>startGeneration\<close> finds no interval active.
\<close>

definition calm :: "generate_screen \<Rightarrow> bool" where
  "calm s =
     (tracked s \<and> pending_starts s \<le> 1 \<and> 0 < next_interval s
      \<and> (pending_starts s = 1 \<longrightarrow> intervals s = []))"

text \<open>A run in which Generate is never tapped while a \<open>startGeneration\<close> is pending
  or an interval is active.\<close>

fun single_flight :: "gen_event list \<Rightarrow> generate_screen \<Rightarrow> bool" where
  "single_flight [] s = True"
| "single_flight (e # es) s =
     ((e = TapGenerate \<longrightarrow> pending_starts s = 0 \<and> intervals s = [])
      \<and> single_flight es (gen_step e s))"

text \<open>
  The run that taps Generate twice before the first \<open>startGeneration\<close> resolves: the
  button stays enabled and the view stays \<open>select\<close> until then. The backend answers
  with the jobs 7 and 8.
\<close>

definition double_tap :: "gen_event list" where
  "double_tap = [TapRubric 1, TapSubject 2, TapGenerate, TapGenerate,
                 StartResolved 7 (JNum 10), StartResolved 8 (JNum 10)]"

text \<open>
  The run in which a \<open>createRubric\<close> that was left pending resolves during a
  generation: its \<open>setView('select')\<close> brings the Generate button back while the
  intervals of job 7 run, and a second generation overwrites the refs.
\<close>

definition late_create :: "gen_event list" where
  "late_create = [TapCreateNew, TypeRubricName ''Quiz 1'', TapSaveRubric, TapBack,
                  TapRubric 1, TapSubject 2, TapGenerate, StartResolved 7 (JNum 10),
                  CreateResolved, TapGenerate, StartResolved 8 (JNum 10)]"

text \<open>The run that unmounts the screen while \<open>startGeneration\<close> is pending.\<close>

definition unmount_while_starting :: "gen_event list" where
  "unmount_while_starting = [TapRubric 1, TapSubject 2, TapGenerate, Unmount,
                             StartResolved 7 (JNum 10)]"

definition sample_job :: "string \<Rightarrow> jsval" where
  "sample_job st = JObj [(''id'', JNum 7), (''status'', JStr st), (''progress'', JNum 100)]"

section \<open>app/(tabs)/vetting.tsx: the submit handler\<close>

text \<open>
  The state of the review view that \<open>handleSubmit\<close> reads or writes. \<open>coLevels\<close>
  is the object from CO id to level, as the list of its entries.
\<close>

record vetting_screen =
  queue :: "jsval list"
  currentIndex :: nat
  feedback :: string
  action :: "string option"
  submitting :: bool
  showCouncil :: bool
  detail :: jsval
  expandedAgent :: "string option"
  allReviewed :: bool
  selectedCos :: "int list"
  coLevels :: "(int \<times> string) list"
  bloomsLevel :: "string option"
  rejectionReason :: "string option"

text \<open>\<open>queue[currentIndex]\<close>: \<open>undefined\<close> past the end.\<close>

definition current :: "vetting_screen \<Rightarrow> jsval" where
  "current s = (if currentIndex s < length (queue s) then queue s ! currentIndex s else JUndefined)"

definition str_or_null :: "string option \<Rightarrow> jsval" where
  "str_or_null x = (case x of None \<Rightarrow> JNull | Some t \<Rightarrow> JStr t)"

text \<open>\<open>!x\<close> for a state cell of type \<open>string | null\<close>.\<close>

definition unset :: "string option \<Rightarrow> bool" where
  "unset x = (x = None \<or> x = Some [])"

definition error_message :: "js_error \<Rightarrow> string" where
  "error_message e =
     (case e of Error m \<Rightarrow> m | TypeError m \<Rightarrow> m | SyntaxError m \<Rightarrow> m | RangeError m \<Rightarrow> m)"

text \<open>The argument of \<open>submitVetting\<close>, built when \<open>current\<close> is an object.\<close>

definition vetting_payload :: "vetting_screen \<Rightarrow> jsval" where
  "vetting_payload s =
     JObj [(''question_id'', get_prop (current s) ''id''),
           (''action'', JStr (if action s = Some ''approve'' then ''approved''
                              else if action s = Some ''reject'' then ''rejected'' else ''edited'')),
           (''co_mappings'', JArr (map JNum (selectedCos s))),
           (''co_mapping_levels'', JObj (map (\<lambda>(k, v). (number_text k, JStr v)) (coLevels s))),
           (''blooms_level'', str_or_null (bloomsLevel s)),
           (''faculty_feedback'',
              (if trim (feedback s) = [] then JUndefined else JStr (trim (feedback s)))),
           (''rejection_reason'', str_or_null (rejectionReason s)),
           (''edited_text'', (if action s = Some ''edit'' then JStr (feedback s) else JUndefined)),
           (''reviewed_by'', JStr ''Faculty User'')]"

text \<open>The state updates after \<open>submitVetting\<close> resolved.\<close>

definition after_submit :: "vetting_screen \<Rightarrow> vetting_screen" where
  "after_submit s =
     (let s1 = s\<lparr>feedback := [], action := None, rejectionReason := None, showCouncil := False,
                  detail := JNull, expandedAgent := None, selectedCos := [], coLevels := []\<rparr>;
          newQueue = take (currentIndex s) (queue s) @ drop (Suc (currentIndex s)) (queue s)
      in if int (currentIndex s) < int (length (queue s)) - 1 then s1\<lparr>queue := newQueue\<rparr>
         else if newQueue = [] then s1\<lparr>queue := newQueue, allReviewed := True\<rparr>
         else s1\<lparr>queue := newQueue, currentIndex := currentIndex s - 1\<rparr>)"

text \<open>
  \<open>handleSubmit\<close>. \<open>reply\<close> is how the promise of \<open>submitVetting\<close> settles; it is
  not looked at when the handler returns or throws before the call. Reading
  \<open>current.id\<close> of \<open>undefined\<close> or \<open>null\<close> throws while the argument is built, inside
  the \<open>try\<close>; the alert then shows the message of the engine's TypeError, for which
  a fixed text stands here.
\<close>

definition handleSubmit ::
  "js_error + jsval \<Rightarrow> vetting_screen \<Rightarrow> ui_effect list \<times> vetting_screen" where
  "handleSubmit reply s =
     (if unset (action s) then ([Alert ''Select Action'' ''Choose Approve, Reject, or Edit''], s)
      else if length (selectedCos s) = 0 then
        ([Alert ''Validation Error''
            ''You must map this question to at least one Course Outcome (CO) before submitting.''], s)
      else if action s = Some ''reject'' \<and> unset (rejectionReason s) then
        ([Alert ''Validation Error'' ''Please select a Rejection Reason.''], s)
      else if action s = Some ''reject'' \<and> (feedback s = [] \<or> length (feedback s) < 5) then
        ([Alert ''Validation Error'' ''Please provide constructive feedback for rejection.''], s)
      else if current s = JUndefined \<or> current s = JNull then
        ([Alert ''Error'' ''Cannot read property id of undefined''], s\<lparr>submitting := False\<rparr>)
      else
        (case reply of
           Inl e \<Rightarrow>
             ([Call ''submitVetting'' [vetting_payload s],
               Alert ''Error'' (or_default (error_message e) ''Failed to submit'')],
              s\<lparr>submitting := False\<rparr>)
         | Inr r \<Rightarrow>
             ([Call ''submitVetting'' [vetting_payload s],
               Alert ''Success'' ''Question vetted and saved to dataset.''],
              (after_submit s)\<lparr>submitting := False\<rparr>)))"

text \<open>A review in progress: a rejection with a reason, a short feedback and no CO yet.\<close>

definition sample_review :: vetting_screen where
  "sample_review =
     \<lparr>queue = [JObj [(''id'', JNum 31), (''text'', JStr ''What is a stack?'')]],
      currentIndex = 0, feedback = ''bad'', action = Some ''reject'', submitting = False,
      showCouncil = False, detail = JNull, expandedAgent = None, allReviewed = False,
      selectedCos = [], coLevels = [], bloomsLevel = None,
      rejectionReason = Some ''Too Simple''\<rparr>"

section \<open>app/(tabs)/_layout.tsx: saving the Bloom's distribution\<close>

text \<open>\<open>{ ...v }\<close>: the own enumerable properties of \<open>v\<close>; none for \<open>null\<close>,
  \<open>undefined\<close>, numbers and booleans.\<close>

fun spread :: "jsval \<Rightarrow> (string \<times> jsval) list" where
  "spread (JObj kvs) = kvs"
| "spread (JArr xs) = zip (map show_nat [0..<length xs]) xs"
| "spread (JStr t) = zip (map show_nat [0..<length t]) (map (\<lambda>c. JStr [c]) t)"
| "spread v = []"

record subject_detail_screen =
  syllabusModal :: bool
  activeTopicForSyllabus :: jsval
  bloomDistribution :: "(string \<times> int) list"

text \<open>What \<open>openSyllabusModal\<close> puts into \<open>bloomDistribution\<close> for a topic without one.\<close>

definition default_bloom :: "(string \<times> int) list" where
  "default_bloom = [(''Knowledge'', 40), (''Comprehension'', 20), (''Application'', 20),
                    (''Analysis'', 10), (''Synthesis'', 5), (''Evaluation'', 5)]"

text \<open>A slider of the modal: \<open>setBloomDistribution(prev => ({ ...prev, [level]: val }))\<close>.\<close>

definition onValueChange :: "string \<Rightarrow> int \<Rightarrow> subject_detail_screen \<Rightarrow> subject_detail_screen" where
  "onValueChange level val s = s\<lparr>bloomDistribution := AList.update level val (bloomDistribution s)\<rparr>"

text \<open>
  \<open>handleSaveSyllabus\<close>, the \<open>onPress\<close> of the modal's Save button (the button has no
  \<open>disabled\<close> property). \<open>resolved\<close> tells whether the promise of
  \<open>updateTopicSyllabus\<close> resolves.
\<close>

definition handleSaveSyllabus ::
  "bool \<Rightarrow> subject_detail_screen \<Rightarrow> ui_effect list \<times> subject_detail_screen" where
  "handleSaveSyllabus resolved s =
     (if \<not> truthy (activeTopicForSyllabus s) then ([], s)
      else
        let topic = activeTopicForSyllabus s;
            data = JObj (AList.update ''bloom_distribution''
                           (JObj (map (\<lambda>(k, w). (k, JNum w)) (bloomDistribution s)))
                           (spread (get_prop topic ''syllabus_data'')));
            call = Call ''updateTopicSyllabus'' [get_prop topic ''id'', data]
        in if resolved
           then ([call, Call ''fetchAll'' [], Alert ''Success'' ''Bloom's taxonomy saved''],
                 s\<lparr>syllabusModal := False\<rparr>)
           else ([call, Alert ''Error'' ''Failed to save''], s))"

text \<open>The modal opened on a topic without a distribution, Knowledge moved from 40 to 45.\<close>

definition sample_syllabus :: subject_detail_screen where
  "sample_syllabus =
     onValueChange ''Knowledge'' 45
       \<lparr>syllabusModal = True,
        activeTopicForSyllabus =
          JObj [(''id'', JNum 12), (''title'', JStr ''Stacks''), (''syllabus_data'', JNull)],
        bloomDistribution = default_bloom\<rparr>"

text \<open>The sum of the weights shown in the modal.\<close>

definition weight_sum :: "(string \<times> int) list \<Rightarrow> int" where
  "weight_sum ws = sum_list (map snd ws)"

section \<open>components/subjects/QuestionUploadDialog.tsx: SyllabusUploadDialog\<close>

text \<open>
  The sibling dialog over the same six levels, defaults and slider steps:
  \<open>totalWeight\<close> folds the weights, and its Save button carries
  \<open>disabled={totalWeight !== 100}\<close>.
\<close>

definition totalWeight :: "(string \<times> int) list \<Rightarrow> int" where
  "totalWeight weights = foldl (\<lambda>a b. a + b) 0 (map snd weights)"

definition save_mapping_disabled :: "(string \<times> int) list \<Rightarrow> bool" where
  "save_mapping_disabled weights = (totalWeight weights \<noteq> 100)"

section \<open>TrainingDashboard: the status poller\<close>

definition training_active :: "jsval \<Rightarrow> bool" where
  "training_active st =
     (st \<in> set [JStr ''generating'', JStr ''evaluating_baseline'', JStr ''evaluating_skill''])"

text \<open>
  The callback of the interval of 3000 ms that the effect sets up (and replaces whenever
  \<open>status?.status\<close> changes): it asks for the training status only while the status it
  closed over is active.
\<close>

definition training_tick :: "int \<Rightarrow> jsval \<Rightarrow> ui_effect list" where
  "training_tick subjectId st =
     (if truthy st \<and> training_active (get_prop st ''status'')
      then [Call ''getTrainingStatus'' [JNum subjectId]] else [])"

section \<open>app/(tabs)/vetting.tsx: extractQuestionTextFromAny\<close>




























section \<open>app/(tabs)/vetting.tsx: the batch tabs\<close>

text \<open>
  A vetting batch as \<open>BatchListView\<close> reads it: the job it belongs to and the
  percentage of its questions already vetted. \<open>progress\<close> is a JavaScript number;
  the comparisons with 100 are exact, so the number is taken as a real.
\<close>

record batch =
  job_id :: nat
  progress :: real

definition activeBatches :: "batch list \<Rightarrow> batch list" where
  "activeBatches batches = filter (\<lambda>b. progress b < 100) batches"

definition historyBatches :: "batch list \<Rightarrow> batch list" where
  "historyBatches batches = filter (\<lambda>b. progress b = 100) batches"

datatype tab = Active | History

definition displayBatches :: "tab \<Rightarrow> batch list \<Rightarrow> batch list" where
  "displayBatches activeTab batches =
     (if activeTab = Active then activeBatches batches else historyBatches batches)"

section \<open>Properties of the request helper\<close>

lemma status_line_contains: "sublist (nat_text (status res)) (status_line res)"
  unfolding status_line_def by (metis sublist_appendI)

lemma append_detail_prefix: "prefix m (append_detail eng b m)"
  unfolding append_detail_def
  by (auto simp: Let_def split: sum.splits)

text \<open>
  C1, as the code has it. On a response whose status is outside 200..299 the helper
  rejects with an \<open>Error\<close> whose message starts with the status line
  \<open>API Error: <status> <statusText>\<close>, so it contains the numeric status. When the
  body is not JSON, or is \<open>null\<close>, the message is the status line alone. Otherwise the
  text of \<open>detail\<close> and then the text of \<open>message\<close> is appended after \<open>" - "\<close>,
  each only when the field is truthy: a field that is absent, \<open>null\<close>, \<open>false\<close>,
  \<open>0\<close>, \<open>NaN\<close> or the empty string adds nothing. When the conversion of a truthy
  field to a string throws, the appending ends there: neither that field nor a later one
  is appended, and what was appended before stays.
\<close>

theorem request_non_2xx_message:
  assumes "fetch (API_BASE @ endpoint) (fetch_init options) = Inr res" and "\<not> ok res"
  shows "\<exists>msg. snd (request eng API_BASE fetch endpoint options) = Inl (Error msg)
          \<and> prefix (status_line res) msg
          \<and> sublist (nat_text (status res)) msg
          \<and> (\<forall>e. json res = Inl e \<longrightarrow> msg = status_line res)
          \<and> (json res = Inr JNull \<longrightarrow> msg = status_line res)
          \<and> (\<forall>errorBody td tm.
                json res = Inr errorBody \<and> errorBody \<noteq> JNull \<and> errorBody \<noteq> JUndefined
                \<and> js_String eng (frames eng) (get_prop errorBody ''detail'') = Inr td
                \<and> js_String eng (frames eng) (get_prop errorBody ''message'') = Inr tm
                \<longrightarrow> msg = status_line res
                          @ (if truthy (get_prop errorBody ''detail'') then '' - '' @ td else [])
                          @ (if truthy (get_prop errorBody ''message'') then '' - '' @ tm else []))
          \<and> (\<forall>errorBody e.
                json res = Inr errorBody
                \<and> truthy (get_prop errorBody ''detail'')
                \<and> js_String eng (frames eng) (get_prop errorBody ''detail'') = Inl e
                \<longrightarrow> msg = status_line res)
          \<and> (\<forall>errorBody td e.
                json res = Inr errorBody
                \<and> js_String eng (frames eng) (get_prop errorBody ''detail'') = Inr td
                \<and> truthy (get_prop errorBody ''message'')
                \<and> js_String eng (frames eng) (get_prop errorBody ''message'') = Inl e
                \<longrightarrow> msg = status_line res
                          @ (if truthy (get_prop errorBody ''detail'') then '' - '' @ td else []))"
proof (cases "json res")
  case (Inl e)
  then show ?thesis using assms status_line_contains[of res]
    by (simp add: request_def Let_def)
next
  case (Inr b)
  have p: "prefix (status_line res) (append_detail eng b (status_line res))"
    by (rule append_detail_prefix)
  then have s: "sublist (nat_text (status res)) (append_detail eng b (status_line res))"
    using status_line_contains[of res] by (meson prefix_imp_sublist sublist_order.order_trans)
  have n: "truthy (get_prop b k) \<Longrightarrow> b \<noteq> JNull \<and> b \<noteq> JUndefined" for k
    by (cases b) auto
  show ?thesis using assms Inr p s n
    by (auto simp: request_def Let_def append_detail_def)
qed

theorem request_non_2xx_message_witness:
  "snd (request sample_engine ''http://10.0.2.2:8000''
          (\<lambda>url init. Inr \<lparr>status = 404, statusText = ''Not Found'',
                            json = Inr (JObj [(''detail'', JStr ''Subject not found'')])\<rparr>)
          ''/api/subjects/7'' None)
     = Inl (Error ''API Error: 404 Not Found - Subject not found'')
   \<and> sublist ''404'' ''API Error: 404 Not Found - Subject not found''
   \<and> snd (request sample_engine ''http://10.0.2.2:8000''
          (\<lambda>url init. Inr \<lparr>status = 502, statusText = ''Bad Gateway'',
                            json = Inl (SyntaxError ''JSON Parse error: Unexpected token: <'')\<rparr>)
          ''/api/subjects/7'' None)
     = Inl (Error ''API Error: 502 Bad Gateway'')
   \<and> snd (request sample_engine ''http://10.0.2.2:8000''
          (\<lambda>url init. Inr \<lparr>status = 422, statusText = ''Unprocessable Entity'',
                            json = Inr (JObj [(''detail'', JObj [(''toString'', JNum 1)]),
                                              (''message'', JStr ''m'')])\<rparr>)
          ''/api/subjects/7'' None)
     = Inl (Error ''API Error: 422 Unprocessable Entity'')"
  using request_non_2xx_message
    [of "\<lambda>url init. Inr \<lparr>status = 404, statusText = ''Not Found'',
                          json = Inr (JObj [(''detail'', JStr ''Subject not found'')])\<rparr>"
        "''http://10.0.2.2:8000''" "''/api/subjects/7''" None
        "\<lparr>status = 404, statusText = ''Not Found'',
          json = Inr (JObj [(''detail'', JStr ''Subject not found'')])\<rparr>" sample_engine]
    request_non_2xx_message
    [of "\<lambda>url init. Inr \<lparr>status = 502, statusText = ''Bad Gateway'',
                          json = Inl (SyntaxError ''JSON Parse error: Unexpected token: <'')\<rparr>"
        "''http://10.0.2.2:8000''" "''/api/subjects/7''" None
        "\<lparr>status = 502, statusText = ''Bad Gateway'',
          json = Inl (SyntaxError ''JSON Parse error: Unexpected token: <'')\<rparr>" sample_engine]
    request_non_2xx_message
    [of "\<lambda>url init. Inr \<lparr>status = 422, statusText = ''Unprocessable Entity'',
                          json = Inr (JObj [(''detail'', JObj [(''toString'', JNum 1)]),
                                            (''message'', JStr ''m'')])\<rparr>"
        "''http://10.0.2.2:8000''" "''/api/subjects/7''" None
        "\<lparr>status = 422, statusText = ''Unprocessable Entity'',
          json = Inr (JObj [(''detail'', JObj [(''toString'', JNum 1)]),
                            (''message'', JStr ''m'')])\<rparr>" sample_engine]
  by (auto simp: ok_def status_line_def nat_text_def show_nat.simps digit_char_def
        js_String_def sample_engine_def)

text \<open>
  C1 as the claim states it fails: a body \<open>{"detail": 0}\<close> has a \<open>detail\<close> field
  whose text is \<open>0\<close>, and the message stays the status line.
\<close>

theorem request_falsy_detail_counterexample:
  "get_prop (JObj [(''detail'', JNum 0)]) ''detail'' = JNum 0
   \<and> js_String sample_engine (frames sample_engine) (JNum 0) = Inr ''0''
   \<and> snd (request sample_engine ''http://10.0.2.2:8000''
            (\<lambda>url init. Inr \<lparr>status = 400, statusText = ''Bad Request'',
                              json = Inr (JObj [(''detail'', JNum 0)])\<rparr>)
            ''/api/rubrics/'' None)
       = Inl (Error ''API Error: 400 Bad Request'')"
  by (simp add: request_def ok_def status_line_def append_detail_def show_nat.simps
        nat_text_def number_text_def digit_char_def js_String_def sample_engine_def Let_def)

text \<open>
  C7, as the code has it. Every invocation asks the network exactly once, for the URL
  \<open>API_BASE + endpoint\<close>. A rejection of \<open>fetch\<close> is written to the console and
  rethrown unchanged. A body of a 2xx response (other than 204) that is not JSON rejects
  the helper's promise with the parse error unchanged. A body of a non-2xx response that
  is not JSON is swallowed: the helper logs and throws the \<open>Error\<close> of the status
  line instead.
\<close>

theorem request_single_fetch:
  "filter is_fetch (fst (request eng API_BASE fetch endpoint options))
     = [Fetch (API_BASE @ endpoint) (fetch_init options)]
   \<and> (\<forall>e. fetch (API_BASE @ endpoint) (fetch_init options) = Inl e \<longrightarrow>
          snd (request eng API_BASE fetch endpoint options) = Inl e
          \<and> last (fst (request eng API_BASE fetch endpoint options)) = ConsoleErrorThrown e)
   \<and> (\<forall>res e. fetch (API_BASE @ endpoint) (fetch_init options) = Inr res
          \<and> ok res \<and> status res \<noteq> 204 \<and> json res = Inl e \<longrightarrow>
          snd (request eng API_BASE fetch endpoint options) = Inl e)
   \<and> (\<forall>res e. fetch (API_BASE @ endpoint) (fetch_init options) = Inr res
          \<and> \<not> ok res \<and> json res = Inl e \<longrightarrow>
          snd (request eng API_BASE fetch endpoint options) = Inl (Error (status_line res))
          \<and> last (fst (request eng API_BASE fetch endpoint options))
              = ConsoleErrorThrown (Error (status_line res)))"
  by (auto simp: request_def Let_def split: sum.splits)

theorem request_single_fetch_witness:
  "request sample_engine ''http://10.0.2.2:8000''
     (\<lambda>url init. Inl (TypeError ''Network request failed'')) ''/api/subjects/'' None
     = ([ConsoleLog ''[API] Request: GET http://10.0.2.2:8000/api/subjects/'',
         Fetch ''http://10.0.2.2:8000/api/subjects/''
           \<lparr>http_method = None,
            headers = [(''Bypass-Tunnel-Reminder'', ''true''),
                       (''ngrok-skip-browser-warning'', ''true'')],
            req_body = None\<rparr>,
         ConsoleErrorThrown (TypeError ''Network request failed'')],
        Inl (TypeError ''Network request failed''))
   \<and> snd (request sample_engine ''http://10.0.2.2:8000''
            (\<lambda>url init. Inr \<lparr>status = 200, statusText = ''OK'',
                              json = Inl (SyntaxError ''JSON Parse error: Unexpected token: <'')\<rparr>)
            ''/api/subjects/'' None)
       = Inl (SyntaxError ''JSON Parse error: Unexpected token: <'')
   \<and> snd (request sample_engine ''http://10.0.2.2:8000''
            (\<lambda>url init. Inr \<lparr>status = 500, statusText = ''Internal Server Error'',
                              json = Inl (SyntaxError ''JSON Parse error: Unexpected token: <'')\<rparr>)
            ''/api/subjects/'' None)
       = Inl (Error ''API Error: 500 Internal Server Error'')"
  using request_single_fetch
    [of sample_engine "''http://10.0.2.2:8000''"
        "\<lambda>url init. Inl (TypeError ''Network request failed'')" "''/api/subjects/''" None]
    request_single_fetch
    [of sample_engine "''http://10.0.2.2:8000''"
        "\<lambda>url init. Inr \<lparr>status = 200, statusText = ''OK'',
                          json = Inl (SyntaxError ''JSON Parse error: Unexpected token: <'')\<rparr>"
        "''/api/subjects/''" None]
    request_single_fetch
    [of sample_engine "''http://10.0.2.2:8000''"
        "\<lambda>url init. Inr \<lparr>status = 500, statusText = ''Internal Server Error'',
                          json = Inl (SyntaxError ''JSON Parse error: Unexpected token: <'')\<rparr>"
        "''/api/subjects/''" None]
  by (simp add: request_def fetch_init_def ok_def status_line_def nat_text_def show_nat.simps
        digit_char_def Let_def)

text \<open>
  C7 as the claim states it fails twice. On a 502 whose body is not JSON the parse error
  is not rethrown: the caller gets the \<open>Error\<close> of the status line. On a 200 whose
  body is not JSON the parse error reaches the caller, and the console holds the request
  line only: nothing was logged for the error.
\<close>

theorem request_parse_error_counterexample:
  "snd (request sample_engine ''http://10.0.2.2:8000''
          (\<lambda>url init. Inr \<lparr>status = 502, statusText = ''Bad Gateway'',
                            json = Inl (SyntaxError ''JSON Parse error: Unexpected token: <'')\<rparr>)
          ''/api/subjects/'' None)
     = Inl (Error ''API Error: 502 Bad Gateway'')
   \<and> request sample_engine ''http://10.0.2.2:8000''
          (\<lambda>url init. Inr \<lparr>status = 200, statusText = ''OK'',
                            json = Inl (SyntaxError ''JSON Parse error: Unexpected token: <'')\<rparr>)
          ''/api/subjects/'' None
     = ([ConsoleLog ''[API] Request: GET http://10.0.2.2:8000/api/subjects/'',
         Fetch ''http://10.0.2.2:8000/api/subjects/''
           \<lparr>http_method = None,
            headers = [(''Bypass-Tunnel-Reminder'', ''true''),
                       (''ngrok-skip-browser-warning'', ''true'')],
            req_body = None\<rparr>],
        Inl (SyntaxError ''JSON Parse error: Unexpected token: <''))"
  by (simp add: request_def ok_def status_line_def fetch_init_def nat_text_def show_nat.simps
        digit_char_def Let_def)

text \<open>
  C8, as the code has it. On status 204 the helper resolves with the empty object,
  whatever the body is. On every other 2xx status it settles as \<open>res.json()\<close> does:
  it resolves with the parsed body when the body is JSON, and it rejects with the parse
  error when the body is not.
\<close>

theorem request_2xx_result:
  assumes "fetch (API_BASE @ endpoint) (fetch_init options) = Inr res" and "ok res"
  shows "(status res = 204 \<longrightarrow> snd (request eng API_BASE fetch endpoint options) = Inr (JObj []))
       \<and> (status res \<noteq> 204 \<longrightarrow> snd (request eng API_BASE fetch endpoint options) = json res)
       \<and> (\<forall>body. status res \<noteq> 204 \<and> json res = Inr body \<longrightarrow>
             snd (request eng API_BASE fetch endpoint options) = Inr body)
       \<and> (\<forall>e. status res \<noteq> 204 \<and> json res = Inl e \<longrightarrow>
             snd (request eng API_BASE fetch endpoint options) = Inl e)"
  using assms by (simp add: request_def Let_def)

theorem request_2xx_result_witness:
  "snd (request sample_engine ''http://10.0.2.2:8000''
          (\<lambda>url init. Inr \<lparr>status = 204, statusText = ''No Content'',
                            json = Inl (SyntaxError ''JSON Parse error: Unexpected end of input'')\<rparr>)
          ''/api/rubrics/3'' (Some \<lparr>http_method = Some ''DELETE'', headers = [], req_body = None\<rparr>))
     = Inr (JObj [])
   \<and> snd (request sample_engine ''http://10.0.2.2:8000''
          (\<lambda>url init. Inr \<lparr>status = 200, statusText = ''OK'',
                            json = Inr (JArr [JObj [(''id'', JNum 1)]])\<rparr>)
          ''/api/rubrics/'' None)
     = Inr (JArr [JObj [(''id'', JNum 1)]])
   \<and> snd (request sample_engine ''http://10.0.2.2:8000''
          (\<lambda>url init. Inr \<lparr>status = 201, statusText = ''Created'',
                            json = Inl (SyntaxError ''JSON Parse error: Unexpected end of input'')\<rparr>)
          ''/api/rubrics/'' None)
     = Inl (SyntaxError ''JSON Parse error: Unexpected end of input'')"
  using request_2xx_result
    [of "\<lambda>url init. Inr \<lparr>status = 204, statusText = ''No Content'',
                            json = Inl (SyntaxError ''JSON Parse error: Unexpected end of input'')\<rparr>"
        "''http://10.0.2.2:8000''" "''/api/rubrics/3''"
        "Some \<lparr>http_method = Some ''DELETE'', headers = [], req_body = None\<rparr>"
        "\<lparr>status = 204, statusText = ''No Content'',
          json = Inl (SyntaxError ''JSON Parse error: Unexpected end of input'')\<rparr>" sample_engine]
    request_2xx_result
    [of "\<lambda>url init. Inr \<lparr>status = 200, statusText = ''OK'',
                            json = Inr (JArr [JObj [(''id'', JNum 1)]])\<rparr>"
        "''http://10.0.2.2:8000''" "''/api/rubrics/''" None
        "\<lparr>status = 200, statusText = ''OK'', json = Inr (JArr [JObj [(''id'', JNum 1)]])\<rparr>"
        sample_engine]
    request_2xx_result
    [of "\<lambda>url init. Inr \<lparr>status = 201, statusText = ''Created'',
                            json = Inl (SyntaxError ''JSON Parse error: Unexpected end of input'')\<rparr>"
        "''http://10.0.2.2:8000''" "''/api/rubrics/''" None
        "\<lparr>status = 201, statusText = ''Created'',
          json = Inl (SyntaxError ''JSON Parse error: Unexpected end of input'')\<rparr>" sample_engine]
  by (simp add: ok_def)

text \<open>
  C8 as the claim states it fails: a 200 response whose body is an HTML page is a 2xx
  response other than 204, and the helper does not resolve; it rejects with the parse
  error.
\<close>

theorem request_2xx_not_json_counterexample:
  "ok \<lparr>status = 200, statusText = ''OK'',
       json = Inl (SyntaxError ''JSON Parse error: Unexpected token: <'')\<rparr>
   \<and> snd (request sample_engine ''http://10.0.2.2:8000''
          (\<lambda>url init. Inr \<lparr>status = 200, statusText = ''OK'',
                            json = Inl (SyntaxError ''JSON Parse error: Unexpected token: <'')\<rparr>)
          ''/api/subjects/'' None)
     = Inl (SyntaxError ''JSON Parse error: Unexpected token: <'')"
  by (simp add: request_def ok_def Let_def)

section \<open>Properties of the Generate screen\<close>

text \<open>
  C5. A press of Save Rubric while the trimmed name is empty shows the error alert and
  nothing else; \<open>createRubric\<close> is called only when the trimmed name is not empty, and
  the name it is given is the trimmed one.
\<close>

theorem create_rubric_requires_name:
  "(trim (rubricName s) = [] \<longrightarrow>
      handleCreateRubric resolved s = ([Alert ''Error'' ''Rubric name is required''], s))
   \<and> (\<forall>args. Call ''createRubric'' args \<in> set (fst (handleCreateRubric resolved s)) \<longrightarrow>
         trim (rubricName s) \<noteq> []
         \<and> (\<exists>data. args = [data] \<and> get_prop data ''name'' = JStr (trim (rubricName s))))"
  by (auto simp: handleCreateRubric_def createRubric_call_def)

theorem create_rubric_requires_name_witness:
  "handleCreateRubric True ((gen_init True)\<lparr>rubricName := ''   ''\<rparr>)
     = ([Alert ''Error'' ''Rubric name is required''], (gen_init True)\<lparr>rubricName := ''   ''\<rparr>)
   \<and> fst (handleCreateRubric True ((gen_init True)\<lparr>rubricName := '' Midterm 1 ''\<rparr>))
     = [Call ''createRubric''
          [JObj [(''name'', JStr ''Midterm 1''), (''exam_type'', JStr ''midterm''),
                 (''duration'', JNum 60), (''mcq_count'', JNum 5), (''mcq_marks_each'', JNum 2),
                 (''short_count'', JNum 3), (''short_marks_each'', JNum 5),
                 (''essay_count'', JNum 2), (''essay_marks_each'', JNum 10)]],
        Call ''fetchData'' []]"
  using create_rubric_requires_name [of "(gen_init True)\<lparr>rubricName := ''   ''\<rparr>" True]
    create_rubric_requires_name [of "(gen_init True)\<lparr>rubricName := '' Midterm 1 ''\<rparr>" True]
  by (simp add: handleCreateRubric_def createRubric_call_def gen_init_def trim_def is_space_def
        parseInt_def number_def round_double_def or_default_def digit_of_def Let_def)

subsection \<open>The polling loop, step by step\<close>

lemma intervals_clear:
  "intervals (clearInterval r s) = filter (\<lambda>t. Some (fst t) \<noteq> r) (intervals s)"
  by (auto simp: clearInterval_def split: option.splits)

lemma clear_keeps [simp]:
  "view (clearInterval r s) = view s"
  "pending_starts (clearInterval r s) = pending_starts s"
  "next_interval (clearInterval r s) = next_interval s"
  "pollRef (clearInterval r s) = pollRef s"
  "timerRef (clearInterval r s) = timerRef s"
  "mounted (clearInterval r s) = mounted s"
  by (auto simp: clearInterval_def split: option.splits)

text \<open>The poll interval runs every 2000 ms, the elapsed-time interval every 1000 ms.\<close>

lemma handleGenerate_resolved_intervals:
  "intervals (handleGenerate_resolved j n s)
     = intervals s @ [(next_interval s, PollTick j, 2000), (Suc (next_interval s), ElapsedTick, 1000)]
   \<and> pollRef (handleGenerate_resolved j n s) = Some (next_interval s)
   \<and> timerRef (handleGenerate_resolved j n s) = Some (Suc (next_interval s))"
  by (simp add: handleGenerate_resolved_def setInterval_def Let_def)

text \<open>On \<open>completed\<close> or \<open>failed\<close> the callback clears the two intervals that the refs
  hold; on every other answer it leaves the intervals as they are.\<close>

lemma poll_resolved_terminal:
  assumes "get_prop job ''status'' = JStr ''completed'' \<or> get_prop job ''status'' = JStr ''failed''"
  shows "intervals (poll_resolved job s)
           = filter (\<lambda>t. Some (fst t) \<noteq> pollRef s \<and> Some (fst t) \<noteq> timerRef s) (intervals s)"
proof -
  have "job \<noteq> JNull" and "job \<noteq> JUndefined" using assms by auto
  then show ?thesis using assms
    by (auto simp: poll_resolved_def Let_def intervals_clear intro: filter_cong)
qed

lemma poll_resolved_other:
  assumes "get_prop job ''status'' \<noteq> JStr ''completed''"
      and "get_prop job ''status'' \<noteq> JStr ''failed''"
  shows "intervals (poll_resolved job s) = intervals s"
  using assms by (simp add: poll_resolved_def Let_def)

text \<open>The training poller asks for the status on a tick exactly while the status it
  holds is one of the three active ones.\<close>

lemma training_tick_active:
  "training_tick subjectId st =
     (if get_prop st ''status'' \<in> {JStr ''generating'', JStr ''evaluating_baseline'',
                                    JStr ''evaluating_skill''}
      then [Call ''getTrainingStatus'' [JNum subjectId]] else [])"
  by (cases st) (auto simp: training_tick_def training_active_def)

subsection \<open>Runs with one generation in flight\<close>

lemma clear_refs_empty:
  "tracked s \<Longrightarrow> intervals (clearInterval (timerRef s) (clearInterval (pollRef s) s)) = []"
  by (auto simp: tracked_def intervals_clear filter_empty_conv)

lemma calm_init: "calm (gen_init b)"
  by (simp add: calm_def tracked_def gen_init_def)

lemma intervals_unmount_cleanup:
  "intervals (unmount_cleanup s)
     = filter (\<lambda>t. (Some (fst t) \<noteq> pollRef s \<or> fst t = 0)
                  \<and> (Some (fst t) \<noteq> timerRef s \<or> fst t = 0))
         (intervals s)"
  unfolding unmount_cleanup_def Let_def
  by (auto simp: intervals_clear intro!: filter_cong)

lemma unmount_cleanup_empty: "tracked s \<Longrightarrow> intervals (unmount_cleanup s) = []"
  unfolding intervals_unmount_cleanup by (auto simp: tracked_def filter_empty_conv)

lemma calm_nil:
  "intervals s = [] \<Longrightarrow> pending_starts s \<le> 1 \<Longrightarrow> 0 < next_interval s \<Longrightarrow> calm s"
  by (simp add: calm_def tracked_def)

lemma calm_same:
  assumes "calm s"
      and "intervals s' = intervals s" and "pollRef s' = pollRef s" and "timerRef s' = timerRef s"
      and "pending_starts s' = pending_starts s" and "next_interval s' = next_interval s"
  shows "calm s'"
  using assms by (simp add: calm_def tracked_def)

lemma poll_resolved_keeps [simp]:
  "pending_starts (poll_resolved job s) = pending_starts s"
  "next_interval (poll_resolved job s) = next_interval s"
  by (auto simp: poll_resolved_def Let_def)

lemma emit_keeps [simp]:
  "intervals (emit e s) = intervals s" "pollRef (emit e s) = pollRef s"
  "timerRef (emit e s) = timerRef s" "pending_starts (emit e s) = pending_starts s"
  "next_interval (emit e s) = next_interval s" "view (emit e s) = view s"
  "mounted (emit e s) = mounted s"
  by (simp_all add: emit_def)

lemma calm_step:
  assumes "calm s" and "e = TapGenerate \<longrightarrow> pending_starts s = 0 \<and> intervals s = []"
  shows "calm (gen_step e s)"
proof (cases e)
  case TapGenerate
  then show ?thesis using assms
    by (auto simp: calm_def tracked_def handleGenerate_def emit_def split: option.splits)
next
  case (StartResolved j n)
  then show ?thesis using assms
    by (auto simp: calm_def tracked_def handleGenerate_resolved_def setInterval_def Let_def)
next
  case (IntervalFired i)
  then show ?thesis using assms
    by (auto intro!: calm_same[OF assms(1)] split: option.splits callback.splits)
next
  case (PollResolved j job)
  let ?s0 = "s\<lparr>pending_polls := remove1 j (pending_polls s)\<rparr>"
  let ?s1 = "s\<lparr>pending_polls := remove1 j (pending_polls s), jobData := job\<rparr>"
  have t: "tracked ?s1" using assms by (simp add: calm_def tracked_def)
  have c: "calm ?s1" using assms by (simp add: calm_def tracked_def)
  show ?thesis
  proof (cases "j \<in> set (pending_polls s)")
    case False
    with PollResolved assms show ?thesis by simp
  next
    case True
    show ?thesis
    proof (cases "job \<noteq> JNull \<and> job \<noteq> JUndefined
                  \<and> (get_prop job ''status'' = JStr ''completed''
                       \<or> get_prop job ''status'' = JStr ''failed'')")
      case stop: True
      then have "intervals (poll_resolved job ?s0) = []"
        using clear_refs_empty[OF t] by (auto simp: poll_resolved_def Let_def)
      then have "calm (poll_resolved job ?s0)"
        using assms by (intro calm_nil) (auto simp: calm_def)
      with True PollResolved show ?thesis by simp
    next
      case go: False
      then have "poll_resolved job ?s0 = ?s1"
        by (auto simp: poll_resolved_def Let_def)
      with c True PollResolved show ?thesis by simp
    qed
  qed
next
  case TapTryAgain
  have "tracked (s\<lparr>view := Select\<rparr>)" using assms by (simp add: calm_def tracked_def)
  from clear_refs_empty[OF this] have "intervals (tryAgain s) = []" by (simp add: tryAgain_def)
  then have "calm (tryAgain s)" using assms by (intro calm_nil) (auto simp: calm_def tryAgain_def)
  with TapTryAgain assms show ?thesis by simp
next
  case Unmount
  have "tracked s" using assms by (simp add: calm_def)
  from unmount_cleanup_empty[OF this]
  have "intervals ((unmount_cleanup s)\<lparr>mounted := False\<rparr>) = []" by simp
  then have "calm ((unmount_cleanup s)\<lparr>mounted := False\<rparr>)" using assms
    by (intro calm_nil) (auto simp: calm_def unmount_cleanup_def Let_def)
  with Unmount assms show ?thesis by simp
qed (use assms in \<open>auto simp: calm_def tracked_def handleGenerate_rejected_def\<close>)

lemma calm_run: "calm s \<Longrightarrow> single_flight es s \<Longrightarrow> calm (gen_run es s)"
  by (induction es arbitrary: s) (auto intro: calm_step)

lemma gen_run_append: "gen_run (es @ fs) s = gen_run fs (gen_run es s)"
  by (induction es arbitrary: s) auto

text \<open>
  As long as Generate is never tapped while a \<open>startGeneration\<close> is pending or an
  interval is active, the screen keeps its intervals in the refs. Then a poll that
  answers \<open>completed\<close> or \<open>failed\<close>, a tap on Try Again and the unmount each leave
  no interval active.
\<close>

lemma single_flight_clears:
  assumes "single_flight es (gen_init b)"
  shows "j \<in> set (pending_polls (gen_run es (gen_init b))) \<Longrightarrow>
           get_prop job ''status'' = JStr ''completed'' \<or> get_prop job ''status'' = JStr ''failed'' \<Longrightarrow>
           intervals (gen_run (es @ [PollResolved j job]) (gen_init b)) = []"
    and "mounted (gen_run es (gen_init b)) \<Longrightarrow> view (gen_run es (gen_init b)) = Generating \<Longrightarrow>
           get_prop (jobData (gen_run es (gen_init b))) ''status'' = JStr ''failed'' \<Longrightarrow>
           intervals (gen_run (es @ [TapTryAgain]) (gen_init b)) = []"
    and "mounted (gen_run es (gen_init b)) \<Longrightarrow>
           intervals (gen_run (es @ [Unmount]) (gen_init b)) = []"
proof -
  let ?s = "gen_run es (gen_init b)"
  have c: "calm ?s" using calm_run[OF calm_init assms] .
  then have t: "tracked ?s" by (simp add: calm_def)
  have t0: "tracked (?s\<lparr>pending_polls := remove1 j (pending_polls ?s)\<rparr>)"
    using t by (simp add: tracked_def)
  show "j \<in> set (pending_polls ?s) \<Longrightarrow>
        get_prop job ''status'' = JStr ''completed'' \<or> get_prop job ''status'' = JStr ''failed'' \<Longrightarrow>
        intervals (gen_run (es @ [PollResolved j job]) (gen_init b)) = []"
    using t0 by (auto simp: gen_run_append poll_resolved_terminal tracked_def filter_empty_conv)
  have "tracked (?s\<lparr>view := Select\<rparr>)" using t by (simp add: tracked_def)
  from clear_refs_empty[OF this] have "intervals (tryAgain ?s) = []" by (simp add: tryAgain_def)
  then show "mounted ?s \<Longrightarrow> view ?s = Generating \<Longrightarrow>
        get_prop (jobData ?s) ''status'' = JStr ''failed'' \<Longrightarrow>
        intervals (gen_run (es @ [TapTryAgain]) (gen_init b)) = []"
    by (simp add: gen_run_append)
  show "mounted ?s \<Longrightarrow> intervals (gen_run (es @ [Unmount]) (gen_init b)) = []"
    using unmount_cleanup_empty[OF t] by (simp add: gen_run_append)
qed

text \<open>
  Without that discipline the refs lose intervals in more than one way. On the run
  \<open>late_create\<close> a rubric creation resolves during a generation and brings the select
  view back; the next generation overwrites the refs, and the unmount leaves the
  intervals of job 7 active.
\<close>

lemma late_create_leaves_intervals:
  "intervals (gen_run (late_create @ [Unmount]) (gen_init True))
     = [(1, PollTick 7, 2000), (2, ElapsedTick, 1000)]"
  by (simp add: late_create_def gen_init_def handleGenerate_def handleGenerate_resolved_def
        setInterval_def emit_def Let_def unmount_cleanup_def clearInterval_def trim_def
        is_space_def createRubric_call_def)

subsection \<open>A second tap while the first start is pending\<close>

text \<open>
  C4 on the run \<open>double_tap\<close>. The two calls of \<open>handleGenerate\<close> both go on after
  their \<open>await\<close>; the second overwrites \<open>pollRef\<close> and \<open>timerRef\<close>. When the
  interval 1 of the first call polls job 7 and the answer is \<open>completed\<close>, the callback
  clears the intervals 3 and 4 that the refs hold. Its own interval and the first
  elapsed-time interval stay active, and on its next tick the loop polls job 7 again.
\<close>

theorem leaked_poll_goes_on:
  "intervals (gen_run (double_tap @ [IntervalFired 1, PollResolved 7 (sample_job ''completed'')])
                (gen_init True))
     = [(1, PollTick 7, 2000), (2, ElapsedTick, 1000)]
   \<and> effects (gen_run (double_tap @ [IntervalFired 1, PollResolved 7 (sample_job ''completed''),
                                     IntervalFired 1]) (gen_init True))
     = [Call ''startGeneration'' [JNum 1, JNum 2, JStr ''Medium''],
        Call ''startGeneration'' [JNum 1, JNum 2, JStr ''Medium''],
        Call ''pollJob'' [JNum 7],
        Call ''pollJob'' [JNum 7]]"
  by (simp add: double_tap_def gen_init_def handleGenerate_def handleGenerate_resolved_def
        setInterval_def emit_def Let_def clearInterval_def poll_resolved_def sample_job_def)

text \<open>
  C6 on the run \<open>double_tap\<close>, followed by the unmount: the cleanup clears the
  intervals 3 and 4 of the refs, and the intervals 1 and 2 of the first call stay active
  on the unmounted screen. On the run \<open>unmount_while_starting\<close> the cleanup finds
  both refs empty, and the continuation of \<open>handleGenerate\<close> starts its two
  intervals on the unmounted screen.
\<close>

theorem unmount_leaves_intervals:
  "intervals (gen_run (double_tap @ [Unmount]) (gen_init True))
     = [(1, PollTick 7, 2000), (2, ElapsedTick, 1000)]
   \<and> mounted (gen_run (double_tap @ [Unmount]) (gen_init True)) = False
   \<and> intervals (gen_run unmount_while_starting (gen_init True))
     = [(1, PollTick 7, 2000), (2, ElapsedTick, 1000)]
   \<and> mounted (gen_run unmount_while_starting (gen_init True)) = False"
  by (simp add: double_tap_def unmount_while_starting_def gen_init_def handleGenerate_def
        handleGenerate_resolved_def setInterval_def emit_def Let_def unmount_cleanup_def
        clearInterval_def)

section \<open>Properties of extractQuestionTextFromAny\<close>




























section \<open>Properties of the vetting screen\<close>

text \<open>
  C10. The Active tab displays the Active list, which holds exactly the fetched batches
  with progress below 100, and the History tab displays the History list, which holds
  exactly those with progress 100, both in the order fetched. When every fetched batch
  has progress at most 100, the two lists are disjoint, together they hold exactly the
  batches fetched, and every batch is displayed under exactly one of the two tabs.
\<close>

theorem batch_tabs_partition:
  assumes "\<forall>b \<in> set batches. progress b \<le> 100"
  shows "set (activeBatches batches) \<inter> set (historyBatches batches) = {}
       \<and> set (activeBatches batches) \<union> set (historyBatches batches) = set batches
       \<and> mset (activeBatches batches) + mset (historyBatches batches) = mset batches
       \<and> (\<forall>b \<in> set batches.
            (b \<in> set (displayBatches Active batches)) \<noteq> (b \<in> set (displayBatches History batches)))
       \<and> displayBatches Active batches = activeBatches batches
       \<and> displayBatches History batches = historyBatches batches
       \<and> set (displayBatches Active batches) = {b \<in> set batches. progress b < 100}
       \<and> set (displayBatches History batches) = {b \<in> set batches. progress b = 100}
       \<and> subseq (displayBatches Active batches) batches
       \<and> subseq (displayBatches History batches) batches"
proof -
  have c1: "set (activeBatches batches) \<inter> set (historyBatches batches) = {}"
    unfolding activeBatches_def historyBatches_def by auto
  have c2: "set (activeBatches batches) \<union> set (historyBatches batches) = set batches"
    using assms unfolding activeBatches_def historyBatches_def by (auto simp: less_le)
  have c3: "mset (activeBatches batches) + mset (historyBatches batches) = mset batches"
    using assms unfolding activeBatches_def historyBatches_def
    by (induction batches) auto
  have c4: "\<forall>b \<in> set batches.
      (b \<in> set (displayBatches Active batches)) \<noteq> (b \<in> set (displayBatches History batches))"
    using assms unfolding activeBatches_def historyBatches_def displayBatches_def
    by (auto simp: less_le)
  have c5: "displayBatches Active batches = activeBatches batches"
    unfolding displayBatches_def by simp
  have c6: "displayBatches History batches = historyBatches batches"
    unfolding displayBatches_def by simp
  have c7: "set (displayBatches Active batches) = {b \<in> set batches. progress b < 100}"
    unfolding activeBatches_def displayBatches_def by auto
  have c8: "set (displayBatches History batches) = {b \<in> set batches. progress b = 100}"
    unfolding historyBatches_def displayBatches_def by auto
  have c9: "subseq (displayBatches Active batches) batches"
    unfolding activeBatches_def displayBatches_def by simp
  have c10: "subseq (displayBatches History batches) batches"
    unfolding historyBatches_def displayBatches_def by simp
  show ?thesis by (intro conjI c1 c2 c3 c4 c5 c6 c7 c8 c9 c10)
qed

theorem batch_tabs_partition_witness:
  "activeBatches [\<lparr>job_id = 1, progress = 40\<rparr>, \<lparr>job_id = 2, progress = 100\<rparr>,
                  \<lparr>job_id = 3, progress = 0\<rparr>]
     = [\<lparr>job_id = 1, progress = 40\<rparr>, \<lparr>job_id = 3, progress = 0\<rparr>]
   \<and> historyBatches [\<lparr>job_id = 1, progress = 40\<rparr>, \<lparr>job_id = 2, progress = 100\<rparr>,
                     \<lparr>job_id = 3, progress = 0\<rparr>]
     = [\<lparr>job_id = 2, progress = 100\<rparr>]
   \<and> displayBatches Active [\<lparr>job_id = 1, progress = 40\<rparr>, \<lparr>job_id = 2, progress = 100\<rparr>,
                            \<lparr>job_id = 3, progress = 0\<rparr>]
     = [\<lparr>job_id = 1, progress = 40\<rparr>, \<lparr>job_id = 3, progress = 0\<rparr>]
   \<and> displayBatches History [\<lparr>job_id = 1, progress = 40\<rparr>, \<lparr>job_id = 2, progress = 100\<rparr>,
                             \<lparr>job_id = 3, progress = 0\<rparr>]
     = [\<lparr>job_id = 2, progress = 100\<rparr>]
   \<and> set (activeBatches [\<lparr>job_id = 1, progress = 40\<rparr>, \<lparr>job_id = 2, progress = 100\<rparr>,
                         \<lparr>job_id = 3, progress = 0\<rparr>])
       \<inter> set (historyBatches [\<lparr>job_id = 1, progress = 40\<rparr>, \<lparr>job_id = 2, progress = 100\<rparr>,
                                \<lparr>job_id = 3, progress = 0\<rparr>]) = {}"
  using batch_tabs_partition
    [of "[\<lparr>job_id = 1, progress = 40\<rparr>, \<lparr>job_id = 2, progress = 100\<rparr>,
          \<lparr>job_id = 3, progress = 0\<rparr>]"]
  by (auto simp: activeBatches_def historyBatches_def displayBatches_def)

text \<open>
  C3. When no CO is selected the submit handler shows one alert and changes nothing: the
  alert asks for an action when none is chosen, and otherwise it is the validation error
  about the Course Outcome. \<open>submitVetting\<close> is called only with at least one CO
  selected and, for a rejection, only with a rejection reason chosen and a feedback of at
  least 5 characters.
\<close>

theorem submit_requires_co:
  "(selectedCos s = [] \<longrightarrow>
      handleSubmit reply s =
        ([if unset (action s) then Alert ''Select Action'' ''Choose Approve, Reject, or Edit''
          else Alert ''Validation Error''
                 ''You must map this question to at least one Course Outcome (CO) before submitting.''],
         s))
   \<and> (\<forall>args. Call ''submitVetting'' args \<in> set (fst (handleSubmit reply s)) \<longrightarrow>
         selectedCos s \<noteq> []
         \<and> (action s = Some ''reject'' \<longrightarrow>
               \<not> unset (rejectionReason s) \<and> 5 \<le> length (feedback s)))"
  by (auto simp: handleSubmit_def split: sum.splits if_splits)

theorem submit_requires_co_witness:
  "fst (handleSubmit (Inr JNull) sample_review)
     = [Alert ''Validation Error''
          ''You must map this question to at least one Course Outcome (CO) before submitting.'']
   \<and> fst (handleSubmit (Inr JNull)
            (sample_review\<lparr>selectedCos := [2], coLevels := [(2, ''moderate'')]\<rparr>))
     = [Alert ''Validation Error'' ''Please provide constructive feedback for rejection.'']
   \<and> fst (handleSubmit (Inr JNull)
            (sample_review\<lparr>selectedCos := [2], coLevels := [(2, ''moderate'')],
                            feedback := ''Wrong concept''\<rparr>))
     = [Call ''submitVetting''
          [JObj [(''question_id'', JNum 31), (''action'', JStr ''rejected''),
                 (''co_mappings'', JArr [JNum 2]),
                 (''co_mapping_levels'', JObj [(''2'', JStr ''moderate'')]),
                 (''blooms_level'', JNull), (''faculty_feedback'', JStr ''Wrong concept''),
                 (''rejection_reason'', JStr ''Too Simple''), (''edited_text'', JUndefined),
                 (''reviewed_by'', JStr ''Faculty User'')]],
        Alert ''Success'' ''Question vetted and saved to dataset.'']"
  using submit_requires_co [of sample_review "Inr JNull"]
    submit_requires_co
      [of "sample_review\<lparr>selectedCos := [2], coLevels := [(2, ''moderate'')],
                          feedback := ''Wrong concept''\<rparr>" "Inr JNull"]
  by (simp add: sample_review_def handleSubmit_def unset_def current_def vetting_payload_def
        str_or_null_def trim_def is_space_def number_text_def nat_text_def show_nat.simps
        digit_char_def)

section \<open>Properties of the Bloom's Taxonomy modal\<close>

text \<open>Whenever a topic is active, Save sends the update; the weights are not looked at.\<close>

lemma save_syllabus_whatever_sum:
  "truthy (activeTopicForSyllabus s) \<Longrightarrow>
     \<exists>data rest. fst (handleSaveSyllabus resolved s)
        = Call ''updateTopicSyllabus'' [get_prop (activeTopicForSyllabus s) ''id'', data] # rest"
  by (simp add: handleSaveSyllabus_def Let_def)

text \<open>
  C2 on the weights 45, 20, 20, 10, 5, 5: their sum is 105, the Save button of the
  sibling dialog would be disabled, and \<open>handleSaveSyllabus\<close> sends them to
  \<open>updateTopicSyllabus\<close>.
\<close>

theorem save_syllabus_sum_105:
  "weight_sum (bloomDistribution sample_syllabus) = 105
   \<and> save_mapping_disabled (bloomDistribution sample_syllabus)
   \<and> fst (handleSaveSyllabus True sample_syllabus)
     = [Call ''updateTopicSyllabus''
          [JNum 12,
           JObj [(''bloom_distribution'',
                  JObj [(''Knowledge'', JNum 45), (''Comprehension'', JNum 20),
                        (''Application'', JNum 20), (''Analysis'', JNum 10),
                        (''Synthesis'', JNum 5), (''Evaluation'', JNum 5)])]],
        Call ''fetchAll'' [],
        Alert ''Success'' ''Bloom's taxonomy saved'']"
  by (simp add: sample_syllabus_def onValueChange_def default_bloom_def weight_sum_def
        handleSaveSyllabus_def save_mapping_disabled_def totalWeight_def Let_def)

end
